theory Spec2Isabelle
  imports Complex_Main "HOL-Library.AList"
begin

section \<open>RNG.js: the encounter and capture resolution of the collection game\<close>

text \<open>
  The script keeps its state in module-level variables and threads a capture through
  a chain of \<^verbatim>\<open>setTimeout\<close> callbacks. The embedding makes the variables the fields
  of one record, every handler and every callback a function from state to state, and
  the pending callbacks a list of tasks held in the state. What the script reads from
  the page, the random source, the clock and the storage quota is handed to each
  function in a record of its own.

  Numbers: the counts and the capture counter are integers; the probabilities are
  JavaScript doubles in the script and exact rationals here.
\<close>

subsection \<open>Data\<close>

text \<open>
  An entry of \<^verbatim>\<open>pokedex\<close>. The fields \<^verbatim>\<open>sprite\<close> and \<^verbatim>\<open>capturedAt\<close>
  hold a string, \<^verbatim>\<open>null\<close> or nothing at all (entries made by \<^verbatim>\<open>showPokemon\<close>
  lack them); \<open>None\<close> stands for both \<^verbatim>\<open>null\<close> and \<^verbatim>\<open>undefined\<close>.
\<close>

record entry =
  entry_id :: nat
  entry_name :: string
  types :: "string list"
  caught :: bool
  is_legendary :: bool
  sprite :: "string option"
  capturedAt :: "string option"
  shiny :: bool

text \<open>The object stored in \<^verbatim>\<open>currentEncounter\<close> by \<^verbatim>\<open>encounterRandom\<close>.\<close>

record encounter =
  enc_id :: nat
  enc_name :: string
  enc_sprite :: "string option"
  enc_types :: "string list"
  enc_shiny :: bool
  enc_is_legendary :: bool

text \<open>
  The messages given to \<^verbatim>\<open>setToast\<close>, one constructor for each message of the
  script (several of them are Portuguese and carry accents, so they are named rather
  than spelled): \<open>NoEncounter\<close> is the notice of \<^verbatim>\<open>tryCatch\<close> and \<^verbatim>\<open>runAway\<close> when
  nothing is on screen, \<open>OutOfBalls\<close> is \<^verbatim>\<open>Sem bolas desse tipo!\<close>, \<open>InvalidFile\<close>
  is the notice of a refused import.
\<close>

datatype notice =
    NoEncounter
  | OutOfBalls
  | Captured string
  | BonusGreatBall
  | BonusUltraBall
  | EscapedBroke string
  | BallFailed
  | FledBattle string
  | SavedCaughtOnly
  | SavedMetaOnly
  | StorageFull
  | InventoryTooBig
  | InventorySaveFailed
  | IsShiny string
  | ShinyLegendary string
  | EncounterError
  | Imported
  | InvalidFile

text \<open>
  The callbacks the script arms with \<^verbatim>\<open>setTimeout\<close>, each with what its closure
  holds. Timers that only touch CSS classes or hide the toast are left out.
\<close>

datatype task =
    Resolve rat
  | Finalize nat
  | NextEncounter
  | Escaped string
  | Fled string
  | EncounterOnly

text \<open>
  \<^verbatim>\<open>localStorage\<close>: the four keys the script writes, each holding the value that
  was serialised into it. The first key holds what \<^verbatim>\<open>pokedex\<close> was when it was
  saved: a collection, or, after an import, a number, a boolean or a string.
\<close>

datatype prim =
    PNumber rat
  | PBoolean bool
  | PString string

datatype stored_dex =
    StoredDex "(nat \<times> entry) list"
  | StoredPrim prim

record storage =
  st_dex :: "stored_dex option"
  st_meta :: "(nat \<times> int) option"
  st_inv :: "((string \<rightharpoonup> int) \<times> int) option"
  st_inv_small :: "int option"

datatype item =
    DexItem "(nat \<times> entry) list"
  | PrimItem prim
  | MetaItem nat int
  | InvItem "string \<rightharpoonup> int" int
  | InvSmallItem int

text \<open>
  What a handler reads from outside the script: the value of the ball selector
  (\<open>None\<close> when the element is missing), whether the image element exists, the next
  value of \<^verbatim>\<open>Math.random()\<close>, the clock as \<^verbatim>\<open>toISOString\<close> prints it, and whether
  \<^verbatim>\<open>localStorage.setItem\<close> accepts a value (it throws when the quota is exceeded).
  The toast element and the elements of the grid are taken to exist.
\<close>

record env =
  ballSelect :: "string option"
  pokeImage :: bool
  math_random :: rat
  now :: string
  quota :: "item \<Rightarrow> bool"

text \<open>
  The module-level variables. \<open>pokedex\<close> is an object keyed by creature number; it
  is kept as an association list with one pair for each key. \<open>inventory\<close> is an
  object read and written through the name of the ball. \<open>watchdog\<close> says whether
  \<^verbatim>\<open>_processingTimer\<close> holds an armed timer; \<open>timers\<close> are the other pending
  callbacks with their delays in milliseconds; \<open>toast\<close> is the last message shown.
\<close>

record state =
  pokedex :: "(nat \<times> entry) list"
  inventory :: "string \<rightharpoonup> int"
  captureCounter :: int
  currentEncounter :: "encounter option"
  isProcessing :: bool
  isFetchingEncounter :: bool
  watchdog :: bool
  timers :: "(nat \<times> task) list"
  toast :: "notice option"
  storage :: storage

definition initial_inventory :: "string \<rightharpoonup> int" where
  "initial_inventory = [''pokeball'' \<mapsto> - 1, ''greatball'' \<mapsto> 2, ''ultraball'' \<mapsto> 1]"

definition initial_state :: state where
  "initial_state =
     \<lparr>pokedex = [], inventory = initial_inventory, captureCounter = 0,
      currentEncounter = None, isProcessing = False, isFetchingEncounter = False,
      watchdog = False, timers = [], toast = None,
      storage = \<lparr>st_dex = None, st_meta = None, st_inv = None, st_inv_small = None\<rparr>\<rparr>"

subsection \<open>Small helpers of the script\<close>

text \<open>JavaScript truthiness of a string that may be \<^verbatim>\<open>null\<close>: the empty string is falsy.\<close>

definition truthy :: "string option \<Rightarrow> bool" where
  "truthy v = (case v of None \<Rightarrow> False | Some t \<Rightarrow> t \<noteq> [])"

text \<open>\<^verbatim>\<open>(inventory[ball]||0)\<close>: a missing key counts as zero.\<close>

definition ball_count :: "(string \<rightharpoonup> int) \<Rightarrow> string \<Rightarrow> int" where
  "ball_count m ball = (case m ball of None \<Rightarrow> 0 | Some n \<Rightarrow> n)"

text \<open>\<^verbatim>\<open>capitalize\<close>, on the ASCII letters the catalog's names are made of.\<close>

definition toUpperCase :: "char \<Rightarrow> char" where
  "toUpperCase c =
     (let n = (of_char c :: nat) in if 97 \<le> n \<and> n \<le> 122 then char_of (n - 32) else c)"

definition capitalize :: "string \<Rightarrow> string" where
  "capitalize s = (case s of [] \<Rightarrow> [] | c # cs \<Rightarrow> toUpperCase c # cs)"

text \<open>The fallback name \<^verbatim>\<open>Pok\<close>, e with acute accent (code unit 233), \<^verbatim>\<open>mon\<close>.\<close>

definition default_name :: string where
  "default_name = ''Pok'' @ [char_of (233 :: nat)] @ ''mon''"

definition shown_name :: "encounter \<Rightarrow> string" where
  "shown_name e = capitalize (if enc_name e = [] then default_name else enc_name e)"

definition setToast :: "notice \<Rightarrow> state \<Rightarrow> state" where
  "setToast msg s = s\<lparr>toast := Some msg\<rparr>"

definition setTimeout :: "nat \<Rightarrow> task \<Rightarrow> state \<Rightarrow> state" where
  "setTimeout ms t s = s\<lparr>timers := timers s @ [(ms, t)]\<rparr>"

definition startProcessing :: "state \<Rightarrow> state" where
  "startProcessing s = s\<lparr>isProcessing := True, watchdog := True\<rparr>"

definition stopProcessing :: "state \<Rightarrow> state" where
  "stopProcessing s = s\<lparr>isProcessing := False, watchdog := False\<rparr>"

text \<open>The watchdog's callback, six seconds after \<^verbatim>\<open>startProcessing\<close>.\<close>

definition watchdog_fires :: "state \<Rightarrow> state" where
  "watchdog_fires s = (if watchdog s then s\<lparr>isProcessing := False, watchdog := False\<rparr> else s)"

subsection \<open>Persistence\<close>

text \<open>
  \<^verbatim>\<open>save\<close>: the whole collection; when the write is refused, the caught entries
  only; then the two counters under a second key; at last both keys of the script
  are removed. \<^verbatim>\<open>updateStats\<close> only writes to the page.
\<close>

definition save :: "env \<Rightarrow> state \<Rightarrow> state" where
  "save env s =
     (if quota env (DexItem (pokedex s))
      then s\<lparr>storage := (storage s)\<lparr>st_dex := Some (StoredDex (pokedex s))\<rparr>\<rparr>
      else
        let compact = filter (\<lambda>(k, v). caught v) (pokedex s) in
        if quota env (DexItem compact)
        then setToast SavedCaughtOnly
               (s\<lparr>storage := (storage s)\<lparr>st_dex := Some (StoredDex compact)\<rparr>\<rparr>)
        else
          let n = length (filter (\<lambda>p. caught p) (map snd (pokedex s))) in
          if quota env (MetaItem n (captureCounter s))
          then setToast SavedMetaOnly
                 (s\<lparr>storage := (storage s)\<lparr>st_meta := Some (n, captureCounter s)\<rparr>\<rparr>)
          else setToast StorageFull
                 (s\<lparr>storage := (storage s)\<lparr>st_dex := None, st_inv := None\<rparr>\<rparr>))"

text \<open>\<^verbatim>\<open>saveInventory\<close>: the inventory with the counter, else the counter alone.\<close>

definition saveInventory :: "env \<Rightarrow> state \<Rightarrow> state" where
  "saveInventory env s =
     (if quota env (InvItem (inventory s) (captureCounter s))
      then s\<lparr>storage := (storage s)\<lparr>st_inv := Some (inventory s, captureCounter s)\<rparr>\<rparr>
      else if quota env (InvSmallItem (captureCounter s))
      then setToast InventoryTooBig
             (s\<lparr>storage := (storage s)\<lparr>st_inv_small := Some (captureCounter s)\<rparr>\<rparr>)
      else setToast InventorySaveFailed s)"

subsection \<open>Encounters\<close>

text \<open>
  \<^verbatim>\<open>encounterRandom\<close> up to its first \<^verbatim>\<open>await\<close>: one fetch at a time. The fetch
  ends later, with the encounter built from the catalog's answer or with an error.
\<close>

definition encounterRandom :: "state \<Rightarrow> state" where
  "encounterRandom s = (if isFetchingEncounter s then s else s\<lparr>isFetchingEncounter := True\<rparr>)"

definition encounterLoaded :: "encounter \<Rightarrow> state \<Rightarrow> state" where
  "encounterLoaded e s =
     (let s1 = s\<lparr>currentEncounter := Some e\<rparr>;
          s2 = (if enc_shiny e then setToast (IsShiny (enc_name e)) s1 else s1);
          s3 = (if enc_shiny e \<and> enc_is_legendary e
                then setToast (ShinyLegendary (enc_name e)) s2 else s2)
      in s3\<lparr>isFetchingEncounter := False\<rparr>)"

definition encounterFailed :: "state \<Rightarrow> state" where
  "encounterFailed s = (setToast EncounterError s)\<lparr>isFetchingEncounter := False\<rparr>"

subsection \<open>\<^verbatim>\<open>tryCatch\<close>\<close>

text \<open>\<^verbatim>\<open>(ballSelect && ballSelect.value) || 'pokeball'\<close>\<close>

definition selectedBall :: "env \<Rightarrow> string" where
  "selectedBall env =
     (case ballSelect env of
        None \<Rightarrow> ''pokeball''
      | Some v \<Rightarrow> if v = [] then ''pokeball'' else v)"

text \<open>
  The table of multipliers, with \<^verbatim>\<open>|| 1.0\<close> for a name it does not hold. The names
  are the option values of the selector; names that JavaScript would find on the
  prototype of the table are not among them.
\<close>

definition ballBonus :: "string \<Rightarrow> rat" where
  "ballBonus ball =
     (if ball = ''pokeball'' then 1
      else if ball = ''greatball'' then 3 / 2
      else if ball = ''ultraball'' then 11 / 5
      else 1)"

definition base :: rat where
  "base = 7 / 20"

text \<open>\<^verbatim>\<open>pokedex[id] && pokedex[id].caught\<close>\<close>

definition already_caught :: "(nat \<times> entry) list \<Rightarrow> nat \<Rightarrow> bool" where
  "already_caught dex i = (case map_of dex i of None \<Rightarrow> False | Some p \<Rightarrow> caught p)"

definition chance :: "(nat \<times> entry) list \<Rightarrow> encounter \<Rightarrow> string \<Rightarrow> rat" where
  "chance dex e ball =
     (if enc_shiny e \<and> enc_is_legendary e then 1
      else min (49 / 50) (base * ballBonus ball + (if already_caught dex (enc_id e) then - (1 / 10) else 0)))"

text \<open>
  The handler of the capture button, up to the timer it arms. The count of a ball
  other than \<^verbatim>\<open>pokeball\<close> is checked and lowered here, before anything is drawn.
\<close>

definition tryCatch :: "env \<Rightarrow> state \<Rightarrow> state" where
  "tryCatch env s =
     (if isProcessing s then s
      else case currentEncounter s of
        None \<Rightarrow> setToast NoEncounter s
      | Some e \<Rightarrow>
          let s1 = startProcessing s;
              ball = selectedBall env;
              ch = chance (pokedex s1) e ball
          in if ball \<noteq> ''pokeball''
             then if ball_count (inventory s1) ball \<le> 0
                  then stopProcessing (setToast OutOfBalls s1)
                  else setTimeout 600 (Resolve ch)
                         (saveInventory env
                            (s1\<lparr>inventory := (inventory s1)
                                   (ball \<mapsto> max 0 (ball_count (inventory s1) ball - 1))\<rparr>))
             else setTimeout 600 (Resolve ch) s1)"

text \<open>
  The callback after 600 ms. Reading a field of \<^verbatim>\<open>currentEncounter\<close> when it is
  \<^verbatim>\<open>null\<close> throws; the callback catches that and calls \<^verbatim>\<open>stopProcessing\<close>.
\<close>

definition resolve :: "env \<Rightarrow> rat \<Rightarrow> state \<Rightarrow> state" where
  "resolve env ch s =
     (let success = (math_random env < ch) in
      case currentEncounter s of
        None \<Rightarrow> stopProcessing s
      | Some e \<Rightarrow>
          if success then setTimeout 420 (Finalize (enc_id e)) s
          else if pokeImage env then setTimeout 700 (Escaped (shown_name e)) s
          else encounterRandom
                 (stopProcessing ((setToast BallFailed s)\<lparr>currentEncounter := None\<rparr>)))"

text \<open>The bonus block of a first capture.\<close>

definition grantBonuses :: "env \<Rightarrow> state \<Rightarrow> state" where
  "grantBonuses env s =
     (let s1 = s\<lparr>captureCounter := captureCounter s + 1\<rparr>;
          s2 = (if captureCounter s1 mod 10 = 0
                then setToast BonusGreatBall
                       (s1\<lparr>inventory := (inventory s1)
                              (''greatball'' \<mapsto> ball_count (inventory s1) ''greatball'' + 1)\<rparr>)
                else s1);
          s3 = (if captureCounter s2 mod 100 = 0
                then setToast BonusUltraBall
                       (s2\<lparr>inventory := (inventory s2)
                              (''ultraball'' \<mapsto> ball_count (inventory s2) ''ultraball'' + 1)\<rparr>)
                else s2)
      in saveInventory env s3)"

text \<open>\<^verbatim>\<open>{ id, name: currentEncounter.name, ..., capturedAt: null, shiny: false }\<close>\<close>

definition newEntry :: "nat \<Rightarrow> encounter \<Rightarrow> entry" where
  "newEntry i e =
     \<lparr>entry_id = i, entry_name = enc_name e, types = enc_types e, caught = False,
      is_legendary = False, sprite = enc_sprite e, capturedAt = None, shiny = False\<rparr>"

text \<open>
  The pieces of the callback that writes a capture, in the order of the script.

  \<^verbatim>\<open>pokedex[id] = pokedex[id] || { id, name: currentEncounter.name, ... }\<close>: the
  entry that is there, else a new one, which needs the encounter.
\<close>

definition entry_or_new :: "(nat \<times> entry) list \<Rightarrow> nat \<Rightarrow> encounter option \<Rightarrow> entry option" where
  "entry_or_new dex i ce =
     (case map_of dex i of Some p \<Rightarrow> Some p | None \<Rightarrow> map_option (newEntry i) ce)"

text \<open>
  \<^verbatim>\<open>pokedex[id].sprite = pokedex[id].sprite || currentEncounter.sprite\<close>: the
  encounter is read only when the entry has no sprite.
\<close>

definition sprite_or :: "entry \<Rightarrow> encounter option \<Rightarrow> string option option" where
  "sprite_or p ce = (if truthy (sprite p) then Some (sprite p) else map_option enc_sprite ce)"

text \<open>\<^verbatim>\<open>if(!pokedex[id].capturedAt) pokedex[id].capturedAt = (new Date()).toISOString()\<close>\<close>

definition stamp :: "env \<Rightarrow> entry \<Rightarrow> entry" where
  "stamp env p = (if truthy (capturedAt p) then p else p\<lparr>capturedAt := Some (now env)\<rparr>)"

text \<open>
  From the toast on: the toast, \<^verbatim>\<open>currentEncounter = null\<close>, the bonus block
  \<^verbatim>\<open>if(firstCapture){...}\<close>, and the timer of 120 ms for the next encounter.
\<close>

definition announce :: "env \<Rightarrow> bool \<Rightarrow> encounter \<Rightarrow> state \<Rightarrow> state" where
  "announce env firstCapture e s =
     (let s2 = (setToast (Captured (enc_name e)) s)\<lparr>currentEncounter := None\<rparr>;
          s3 = (if firstCapture then grantBonuses env s2 else s2)
      in setTimeout 120 NextEncounter s3)"

text \<open>
  The callback after a further 420 ms, which writes the capture. The same statements
  stand a second time in a \<^verbatim>\<open>catch\<close> block of the script. Where the script would
  read a field of a \<^verbatim>\<open>currentEncounter\<close> that is \<^verbatim>\<open>null\<close> the callback ends there
  with what it has written so far: before the entry is made, at the sprite, or at the
  toast, after \<^verbatim>\<open>save()\<close>.
\<close>

definition finalize :: "env \<Rightarrow> nat \<Rightarrow> state \<Rightarrow> state" where
  "finalize env i s =
     (case entry_or_new (pokedex s) i (currentEncounter s) of
        None \<Rightarrow> s
      | Some p0 \<Rightarrow>
          (let firstCapture = (\<not> caught p0);
               p1 = p0\<lparr>caught := True\<rparr>
           in (case sprite_or p1 (currentEncounter s) of
                 None \<Rightarrow> s\<lparr>pokedex := AList.update i p1 (pokedex s)\<rparr>
               | Some spr \<Rightarrow>
                   (let p3 = stamp env (p1\<lparr>sprite := spr\<rparr>);
                        s1 = save env (s\<lparr>pokedex := AList.update i p3 (pokedex s)\<rparr>)
                    in (case currentEncounter s of
                          None \<Rightarrow> s1
                        | Some e \<Rightarrow> announce env firstCapture e s1)))))"

subsection \<open>\<^verbatim>\<open>runAway\<close>\<close>

definition runAway :: "env \<Rightarrow> state \<Rightarrow> state" where
  "runAway env s =
     (if isProcessing s then s
      else case currentEncounter s of
        None \<Rightarrow> setToast NoEncounter s
      | Some e \<Rightarrow>
          let s1 = startProcessing s;
              name = shown_name e
          in if pokeImage env then setTimeout 700 (Fled name) s1
             else setTimeout 300 EncounterOnly
                    (stopProcessing ((setToast (FledBattle name) s1)\<lparr>currentEncounter := None\<rparr>)))"

subsection \<open>The timer callbacks and runs of events\<close>

definition fire :: "env \<Rightarrow> task \<Rightarrow> state \<Rightarrow> state" where
  "fire env t s =
     (case t of
        Resolve ch \<Rightarrow> resolve env ch s
      | Finalize i \<Rightarrow> finalize env i s
      | NextEncounter \<Rightarrow> encounterRandom (stopProcessing s)
      | Escaped name \<Rightarrow>
          encounterRandom
            (stopProcessing ((setToast (EscapedBroke name) s)\<lparr>currentEncounter := None\<rparr>))
      | Fled name \<Rightarrow>
          setTimeout 300 NextEncounter ((setToast (FledBattle name) s)\<lparr>currentEncounter := None\<rparr>)
      | EncounterOnly \<Rightarrow> encounterRandom s)"

text \<open>The \<open>k\<close>-th pending timer fires and leaves the list.\<close>

definition timeout :: "env \<Rightarrow> nat \<Rightarrow> state \<Rightarrow> state" where
  "timeout env k s =
     (if k < length (timers s)
      then fire env (snd (timers s ! k)) (s\<lparr>timers := take k (timers s) @ drop (Suc k) (timers s)\<rparr>)
      else s)"

text \<open>
  What can happen to the state: a click on either button, a timer, the watchdog, a
  request for an encounter and its end.
\<close>

datatype event =
    TryCatch env
  | RunAway env
  | Timeout env nat
  | WatchdogFires
  | EncounterRandom
  | EncounterLoaded encounter
  | EncounterFailed

definition step :: "event \<Rightarrow> state \<Rightarrow> state" where
  "step ev s =
     (case ev of
        TryCatch env \<Rightarrow> tryCatch env s
      | RunAway env \<Rightarrow> runAway env s
      | Timeout env k \<Rightarrow> timeout env k s
      | WatchdogFires \<Rightarrow> watchdog_fires s
      | EncounterRandom \<Rightarrow> encounterRandom s
      | EncounterLoaded e \<Rightarrow> encounterLoaded e s
      | EncounterFailed \<Rightarrow> encounterFailed s)"

fun run :: "event list \<Rightarrow> state \<Rightarrow> state" where
  "run [] s = s"
| "run (ev # evs) s = run evs (step ev s)"

text \<open>
  A resolution left alone: the pending timers fire one after the other, oldest first,
  until none is left, each callback reading the same page, draw and clock. The chain
  of a capture is three timers long (600 ms, 420 ms, 120 ms), well inside the six
  seconds of the watchdog.
\<close>

fun settle :: "nat \<Rightarrow> env \<Rightarrow> state \<Rightarrow> state" where
  "settle 0 env s = s"
| "settle (Suc n) env s = (if timers s = [] then s else settle n env (timeout env 0 s))"

text \<open>A whole attempt: the click on the capture button and the timers it arms.\<close>

definition attemptCapture :: "env \<Rightarrow> state \<Rightarrow> state" where
  "attemptCapture env s = settle 3 env (tryCatch env s)"

subsection \<open>\<^verbatim>\<open>importPokedex\<close>\<close>

text \<open>
  The handler that runs when the chosen file has been read:
  \<^verbatim>\<open>try{ const data = JSON.parse(reader.result); pokedex = data; save();
       renderPokedex(); setToast(<imported>); }catch(e){ setToast(<invalid file>); }\<close>

  \<^verbatim>\<open>JSON.parse\<close> belongs to the browser; the handler is modelled on what it gives
  back. \<open>SyntaxError\<close> is a text it refuses by throwing. Of the values it can
  return the model keeps \<^verbatim>\<open>null\<close>, the numbers, booleans and strings, and the
  objects that are collections; arrays and objects of other shapes are left out.
\<close>

datatype parsed =
    SyntaxError
  | ParsedNull
  | ParsedPrim prim
  | ParsedDex "(nat \<times> entry) list"

text \<open>
  \<open>pokedex\<close> of \<^typ>\<open>state\<close> is a collection and can hold nothing else, so the
  handler's result says what the variable \<^verbatim>\<open>pokedex\<close> is afterwards: with \<open>Vars s\<close>
  all variables are those of \<open>s\<close>; with \<open>NullPokedex s\<close> the variable is \<^verbatim>\<open>null\<close>,
  and with \<open>PrimPokedex v s\<close> it is the number, boolean or string \<open>v\<close>, while the
  other variables are those of \<open>s\<close> (its field \<open>pokedex\<close> then stands for nothing).
\<close>

datatype imported =
    Vars state
  | NullPokedex state
  | PrimPokedex prim state

text \<open>
  \<^verbatim>\<open>save\<close> while \<^verbatim>\<open>pokedex\<close> is \<^verbatim>\<open>null\<close>. \<^verbatim>\<open>Object.values(null)\<close> and
  \<^verbatim>\<open>Object.entries(null)\<close> throw a TypeError, so \<^verbatim>\<open>updateStats\<close> throws after the
  first write, and the second and the third attempt throw before theirs: the last
  \<^verbatim>\<open>catch\<close> runs, which removes both keys of the script and shows its notice.
  \<^verbatim>\<open>save\<close> itself returns normally.
\<close>

definition save_null :: "state \<Rightarrow> state" where
  "save_null s = setToast StorageFull (s\<lparr>storage := (storage s)\<lparr>st_dex := None, st_inv := None\<rparr>\<rparr>)"

text \<open>
  \<^verbatim>\<open>save\<close> while \<^verbatim>\<open>pokedex\<close> is a number, a boolean or a string. Nothing
  throws but a refused write. \<^verbatim>\<open>Object.entries\<close> of such a value has no pair
  whose value has a truthy \<^verbatim>\<open>caught\<close>, so the compact form is the empty object and
  the count of caught entries is zero.
\<close>

definition save_prim :: "env \<Rightarrow> prim \<Rightarrow> state \<Rightarrow> state" where
  "save_prim env v s =
     (if quota env (PrimItem v)
      then s\<lparr>storage := (storage s)\<lparr>st_dex := Some (StoredPrim v)\<rparr>\<rparr>
      else if quota env (DexItem [])
      then setToast SavedCaughtOnly (s\<lparr>storage := (storage s)\<lparr>st_dex := Some (StoredDex [])\<rparr>\<rparr>)
      else if quota env (MetaItem 0 (captureCounter s))
      then setToast SavedMetaOnly
             (s\<lparr>storage := (storage s)\<lparr>st_meta := Some (0, captureCounter s)\<rparr>\<rparr>)
      else setToast StorageFull
             (s\<lparr>storage := (storage s)\<lparr>st_dex := None, st_inv := None\<rparr>\<rparr>))"

text \<open>
  \<^verbatim>\<open>renderPokedex\<close> reads \<^verbatim>\<open>pokedex[id]\<close> for the numbers from 1 to \<^verbatim>\<open>allCount\<close>
  that it filters or draws, which throws a TypeError when \<^verbatim>\<open>pokedex\<close> is
  \<^verbatim>\<open>null\<close>; with an empty catalog there is nothing to read. \<open>True\<close> says that it
  throws. On a number, a boolean or a string the read gives \<^verbatim>\<open>undefined\<close> or a
  character, which the grid shows as an empty cell.
\<close>

definition renderPokedex_null_throws :: "nat \<Rightarrow> bool" where
  "renderPokedex_null_throws allCount = (0 < allCount)"

definition importPokedex_onload :: "nat \<Rightarrow> env \<Rightarrow> parsed \<Rightarrow> state \<Rightarrow> imported" where
  "importPokedex_onload allCount env data s =
     (case data of
        SyntaxError \<Rightarrow> Vars (setToast InvalidFile s)
      | ParsedDex d \<Rightarrow> Vars (setToast Imported (save env (s\<lparr>pokedex := d\<rparr>)))
      | ParsedPrim v \<Rightarrow> PrimPokedex v (setToast Imported (save_prim env v s))
      | ParsedNull \<Rightarrow>
          (let s1 = save_null s in
           if renderPokedex_null_throws allCount
           then NullPokedex (setToast InvalidFile s1)
           else NullPokedex (setToast Imported s1)))"

subsection \<open>Readings of the state and sample values\<close>

text \<open>The \<^verbatim>\<open>capturedAt\<close> of a creature, \<open>None\<close> also when it has no entry.\<close>

definition capturedAt_of :: "(nat \<times> entry) list \<Rightarrow> nat \<Rightarrow> string option" where
  "capturedAt_of dex i = (case map_of dex i of None \<Rightarrow> None | Some p \<Rightarrow> capturedAt p)"

text \<open>
  Two encounters, one of them shiny and legendary; a setting of the page with a ball
  selected and a value for the next draw; the state in which an encounter has just
  arrived; an entry and a state in which one creature has been caught and saved.
\<close>

definition mewtwo :: encounter where
  "mewtwo =
     \<lparr>enc_id = 150, enc_name = ''Mewtwo'', enc_sprite = Some ''mewtwo-shiny.png'',
      enc_types = [''psychic''], enc_shiny = True, enc_is_legendary = True\<rparr>"

definition rattata :: encounter where
  "rattata =
     \<lparr>enc_id = 19, enc_name = ''Rattata'', enc_sprite = Some ''rattata.png'',
      enc_types = [''normal''], enc_shiny = False, enc_is_legendary = False\<rparr>"

definition setting :: "string \<Rightarrow> rat \<Rightarrow> env" where
  "setting ball r =
     \<lparr>ballSelect = Some ball, pokeImage = True, math_random = r,
      now = ''2024-05-01T10:00:00.000Z'', quota = (\<lambda>_. True)\<rparr>"

definition meeting :: "encounter \<Rightarrow> state" where
  "meeting e = initial_state\<lparr>currentEncounter := Some e\<rparr>"

definition rattata_entry :: entry where
  "rattata_entry =
     (newEntry 19 rattata)\<lparr>caught := True, capturedAt := Some ''2024-05-01T10:00:00.000Z''\<rparr>"

definition collected :: state where
  "collected =
     initial_state
       \<lparr>pokedex := [(19, rattata_entry)], captureCounter := 1,
        storage := \<lparr>st_dex = Some (StoredDex [(19, rattata_entry)]), st_meta = None,
                     st_inv = Some (initial_inventory, 1), st_inv_small = None\<rparr>\<rparr>"

section \<open>Properties\<close>

subsection \<open>What the helpers leave alone\<close>

lemma setToast_fields [simp]:
  "pokedex (setToast m s) = pokedex s"
  "inventory (setToast m s) = inventory s"
  "captureCounter (setToast m s) = captureCounter s"
  "currentEncounter (setToast m s) = currentEncounter s"
  "isProcessing (setToast m s) = isProcessing s"
  "isFetchingEncounter (setToast m s) = isFetchingEncounter s"
  "watchdog (setToast m s) = watchdog s"
  "timers (setToast m s) = timers s"
  "storage (setToast m s) = storage s"
  "toast (setToast m s) = Some m"
  by (simp_all add: setToast_def)

lemma setTimeout_fields [simp]:
  "pokedex (setTimeout d t s) = pokedex s"
  "inventory (setTimeout d t s) = inventory s"
  "captureCounter (setTimeout d t s) = captureCounter s"
  "currentEncounter (setTimeout d t s) = currentEncounter s"
  "isProcessing (setTimeout d t s) = isProcessing s"
  "isFetchingEncounter (setTimeout d t s) = isFetchingEncounter s"
  "watchdog (setTimeout d t s) = watchdog s"
  "timers (setTimeout d t s) = timers s @ [(d, t)]"
  "storage (setTimeout d t s) = storage s"
  "toast (setTimeout d t s) = toast s"
  by (simp_all add: setTimeout_def)

lemma startProcessing_fields [simp]:
  "pokedex (startProcessing s) = pokedex s"
  "inventory (startProcessing s) = inventory s"
  "captureCounter (startProcessing s) = captureCounter s"
  "currentEncounter (startProcessing s) = currentEncounter s"
  "isProcessing (startProcessing s) = True"
  "isFetchingEncounter (startProcessing s) = isFetchingEncounter s"
  "watchdog (startProcessing s) = True"
  "timers (startProcessing s) = timers s"
  "storage (startProcessing s) = storage s"
  "toast (startProcessing s) = toast s"
  by (simp_all add: startProcessing_def)

lemma stopProcessing_fields [simp]:
  "pokedex (stopProcessing s) = pokedex s"
  "inventory (stopProcessing s) = inventory s"
  "captureCounter (stopProcessing s) = captureCounter s"
  "currentEncounter (stopProcessing s) = currentEncounter s"
  "isProcessing (stopProcessing s) = False"
  "isFetchingEncounter (stopProcessing s) = isFetchingEncounter s"
  "watchdog (stopProcessing s) = False"
  "timers (stopProcessing s) = timers s"
  "storage (stopProcessing s) = storage s"
  "toast (stopProcessing s) = toast s"
  by (simp_all add: stopProcessing_def)

lemma encounterRandom_fields [simp]:
  "pokedex (encounterRandom s) = pokedex s"
  "inventory (encounterRandom s) = inventory s"
  "captureCounter (encounterRandom s) = captureCounter s"
  "currentEncounter (encounterRandom s) = currentEncounter s"
  "isProcessing (encounterRandom s) = isProcessing s"
  "isFetchingEncounter (encounterRandom s) = True"
  "watchdog (encounterRandom s) = watchdog s"
  "timers (encounterRandom s) = timers s"
  "storage (encounterRandom s) = storage s"
  "toast (encounterRandom s) = toast s"
  by (simp_all add: encounterRandom_def)

lemma saveInventory_fields [simp]:
  "pokedex (saveInventory env s) = pokedex s"
  "inventory (saveInventory env s) = inventory s"
  "captureCounter (saveInventory env s) = captureCounter s"
  "currentEncounter (saveInventory env s) = currentEncounter s"
  "isProcessing (saveInventory env s) = isProcessing s"
  "isFetchingEncounter (saveInventory env s) = isFetchingEncounter s"
  "watchdog (saveInventory env s) = watchdog s"
  "timers (saveInventory env s) = timers s"
  by (simp_all add: saveInventory_def)

lemma save_fields [simp]:
  "pokedex (save env s) = pokedex s"
  "inventory (save env s) = inventory s"
  "captureCounter (save env s) = captureCounter s"
  "currentEncounter (save env s) = currentEncounter s"
  "isProcessing (save env s) = isProcessing s"
  "isFetchingEncounter (save env s) = isFetchingEncounter s"
  "watchdog (save env s) = watchdog s"
  "timers (save env s) = timers s"
  by (simp_all add: save_def Let_def)

lemma encounterLoaded_fields [simp]:
  "pokedex (encounterLoaded e s) = pokedex s"
  "inventory (encounterLoaded e s) = inventory s"
  "captureCounter (encounterLoaded e s) = captureCounter s"
  "storage (encounterLoaded e s) = storage s"
  by (simp_all add: encounterLoaded_def Let_def)

lemma encounterFailed_fields [simp]:
  "pokedex (encounterFailed s) = pokedex s"
  "inventory (encounterFailed s) = inventory s"
  "captureCounter (encounterFailed s) = captureCounter s"
  "storage (encounterFailed s) = storage s"
  by (simp_all add: encounterFailed_def)

lemma watchdog_fires_fields [simp]:
  "pokedex (watchdog_fires s) = pokedex s"
  "inventory (watchdog_fires s) = inventory s"
  "captureCounter (watchdog_fires s) = captureCounter s"
  "storage (watchdog_fires s) = storage s"
  by (simp_all add: watchdog_fires_def)

subsection \<open>The capture written by \<^verbatim>\<open>finalize\<close>\<close>

lemma grantBonuses_fields [simp]:
  "pokedex (grantBonuses env s) = pokedex s"
  "currentEncounter (grantBonuses env s) = currentEncounter s"
  "isProcessing (grantBonuses env s) = isProcessing s"
  "isFetchingEncounter (grantBonuses env s) = isFetchingEncounter s"
  "watchdog (grantBonuses env s) = watchdog s"
  "timers (grantBonuses env s) = timers s"
  "captureCounter (grantBonuses env s) = captureCounter s + 1"
  by (simp_all add: grantBonuses_def Let_def)

lemma grantBonuses_count:
  "ball_count (inventory (grantBonuses env s)) b =
     ball_count (inventory s) b
     + (if b = ''greatball'' \<and> (captureCounter s + 1) mod 10 = 0 then 1 else 0)
     + (if b = ''ultraball'' \<and> (captureCounter s + 1) mod 100 = 0 then 1 else 0)"
  by (simp add: grantBonuses_def Let_def ball_count_def)

lemma grantBonuses_pokeball:
  "inventory (grantBonuses env s) ''pokeball'' = inventory s ''pokeball''"
  by (simp add: grantBonuses_def Let_def)

lemma announce_fields [simp]:
  "pokedex (announce env f e s) = pokedex s"
  "currentEncounter (announce env f e s) = None"
  "isProcessing (announce env f e s) = isProcessing s"
  "isFetchingEncounter (announce env f e s) = isFetchingEncounter s"
  "watchdog (announce env f e s) = watchdog s"
  "timers (announce env f e s) = timers s @ [(120, NextEncounter)]"
  "captureCounter (announce env f e s) = (if f then captureCounter s + 1 else captureCounter s)"
  by (simp_all add: announce_def Let_def)

lemma announce_count:
  "ball_count (inventory (announce env f e s)) b =
     ball_count (inventory s) b
     + (if f \<and> b = ''greatball'' \<and> (captureCounter s + 1) mod 10 = 0 then 1 else 0)
     + (if f \<and> b = ''ultraball'' \<and> (captureCounter s + 1) mod 100 = 0 then 1 else 0)"
  by (simp add: announce_def Let_def grantBonuses_count)

lemma announce_pokeball:
  "inventory (announce env f e s) ''pokeball'' = inventory s ''pokeball''"
  by (simp add: announce_def Let_def grantBonuses_pokeball)

lemma caught_stamp [simp]: "caught (stamp env p) = caught p"
  by (simp add: stamp_def)

lemma entry_or_new_Some:
  "ce = Some e \<Longrightarrow> \<exists>p. entry_or_new dex i ce = Some p \<and> caught p = already_caught dex i
      \<and> capturedAt p = capturedAt_of dex i"
  by (simp add: entry_or_new_def already_caught_def capturedAt_of_def newEntry_def split: option.splits)

lemma sprite_or_Some: "ce = Some e \<Longrightarrow> \<exists>v. sprite_or p ce = Some v"
  by (simp add: sprite_or_def)

lemma finalize_normal:
  assumes "currentEncounter s = Some e"
  shows "\<exists>p. caught p \<and> capturedAt p = (if truthy (capturedAt_of (pokedex s) i) then capturedAt_of (pokedex s) i else Some (now env))
     \<and> finalize env i s =
      announce env (\<not> already_caught (pokedex s) i) e
        (save env (s\<lparr>pokedex := AList.update i p (pokedex s)\<rparr>))"
proof -
  obtain p0 where p0: "entry_or_new (pokedex s) i (currentEncounter s) = Some p0"
    "caught p0 = already_caught (pokedex s) i" "capturedAt p0 = capturedAt_of (pokedex s) i"
    using entry_or_new_Some [OF assms] by blast
  obtain v where v: "sprite_or (p0\<lparr>caught := True\<rparr>) (currentEncounter s) = Some v"
    using sprite_or_Some [OF assms] by blast
  let ?p = "stamp env (p0\<lparr>caught := True, sprite := v\<rparr>)"
  have "finalize env i s =
      announce env (\<not> already_caught (pokedex s) i) e
        (save env (s\<lparr>pokedex := AList.update i ?p (pokedex s)\<rparr>))"
    using p0 v assms by (simp add: finalize_def Let_def)
  moreover have "caught ?p" by simp
  moreover have "capturedAt ?p = (if truthy (capturedAt_of (pokedex s) i) then capturedAt_of (pokedex s) i else Some (now env))"
    using p0 by (simp add: stamp_def)
  ultimately show ?thesis by blast
qed

lemma finalize_fields:
  assumes "currentEncounter s = Some e"
  shows "currentEncounter (finalize env i s) = None"
    and "isProcessing (finalize env i s) = isProcessing s"
    and "isFetchingEncounter (finalize env i s) = isFetchingEncounter s"
    and "timers (finalize env i s) = timers s @ [(120, NextEncounter)]"
    and "already_caught (pokedex (finalize env i s)) i"
    and "captureCounter (finalize env i s) =
           (if already_caught (pokedex s) i then captureCounter s else captureCounter s + 1)"
    and "capturedAt_of (pokedex (finalize env i s)) i =
           (if truthy (capturedAt_of (pokedex s) i) then capturedAt_of (pokedex s) i
            else Some (now env))"
    and "j \<noteq> i \<Longrightarrow> map_of (pokedex (finalize env i s)) j = map_of (pokedex s) j"
    and "inventory (finalize env i s) ''pokeball'' = inventory s ''pokeball''"
    and "ball_count (inventory (finalize env i s)) b =
           ball_count (inventory s) b
           + (if \<not> already_caught (pokedex s) i \<and> b = ''greatball''
                 \<and> (captureCounter s + 1) mod 10 = 0 then 1 else 0)
           + (if \<not> already_caught (pokedex s) i \<and> b = ''ultraball''
                 \<and> (captureCounter s + 1) mod 100 = 0 then 1 else 0)"
  using finalize_normal [OF assms, where env = env and i = i]
  by (auto simp: already_caught_def capturedAt_of_def update_conv' announce_count announce_pokeball)

subsection \<open>An attempt that goes ahead, and the chain of its timers\<close>

lemma tryCatch_pokeball:
  assumes "\<not> isProcessing s" and "currentEncounter s = Some e"
    and "selectedBall env = ''pokeball''"
  shows "tryCatch env s =
           setTimeout 600 (Resolve (chance (pokedex s) e ''pokeball'')) (startProcessing s)"
  using assms by (simp add: tryCatch_def Let_def)

lemma tryCatch_finite:
  assumes "\<not> isProcessing s" and "currentEncounter s = Some e"
    and "selectedBall env \<noteq> ''pokeball''"
    and "0 < ball_count (inventory s) (selectedBall env)"
  shows "tryCatch env s =
           setTimeout 600 (Resolve (chance (pokedex s) e (selectedBall env)))
             (saveInventory env
                ((startProcessing s)\<lparr>inventory := (inventory s)
                    (selectedBall env \<mapsto> ball_count (inventory s) (selectedBall env) - 1)\<rparr>))"
  using assms by (simp add: tryCatch_def Let_def)

lemma tryCatch_accepted:
  assumes "\<not> isProcessing s" and "currentEncounter s = Some e"
    and "selectedBall env = ''pokeball'' \<or> 0 < ball_count (inventory s) (selectedBall env)"
  shows "timers (tryCatch env s) =
           timers s @ [(600, Resolve (chance (pokedex s) e (selectedBall env)))]"
    and "pokedex (tryCatch env s) = pokedex s"
    and "currentEncounter (tryCatch env s) = Some e"
    and "isProcessing (tryCatch env s)"
    and "captureCounter (tryCatch env s) = captureCounter s"
    and "isFetchingEncounter (tryCatch env s) = isFetchingEncounter s"
proof -
  consider "selectedBall env = ''pokeball''"
    | "selectedBall env \<noteq> ''pokeball''" "0 < ball_count (inventory s) (selectedBall env)"
    using assms(3) by blast
  then have "timers (tryCatch env s) =
           timers s @ [(600, Resolve (chance (pokedex s) e (selectedBall env)))]
    \<and> pokedex (tryCatch env s) = pokedex s
    \<and> currentEncounter (tryCatch env s) = Some e
    \<and> isProcessing (tryCatch env s)
    \<and> captureCounter (tryCatch env s) = captureCounter s
    \<and> isFetchingEncounter (tryCatch env s) = isFetchingEncounter s"
  proof cases
    case 1
    then show ?thesis using assms(1,2) by (simp add: tryCatch_pokeball)
  next
    case 2
    then show ?thesis using assms(1,2) by (simp add: tryCatch_finite)
  qed
  then show "timers (tryCatch env s) =
           timers s @ [(600, Resolve (chance (pokedex s) e (selectedBall env)))]"
    and "pokedex (tryCatch env s) = pokedex s"
    and "currentEncounter (tryCatch env s) = Some e"
    and "isProcessing (tryCatch env s)"
    and "captureCounter (tryCatch env s) = captureCounter s"
    and "isFetchingEncounter (tryCatch env s) = isFetchingEncounter s"
    by simp_all
qed

lemma timeout_head:
  "timers s = (d, t) # ts \<Longrightarrow> timeout env 0 s = fire env t (s\<lparr>timers := ts\<rparr>)"
  by (simp add: timeout_def)

lemma settle_nil: "timers s = [] \<Longrightarrow> settle n env s = s"
  by (cases n) simp_all

lemma settle_head:
  "timers s = (d, t) # ts \<Longrightarrow> settle (Suc n) env s = settle n env (fire env t (s\<lparr>timers := ts\<rparr>))"
  by (simp add: timeout_head)

text \<open>A resolution whose draw succeeds, from the 600 ms callback to the end of the chain.\<close>

lemma settle_success:
  assumes "timers s = [(600, Resolve ch)]" and "currentEncounter s = Some e"
    and "math_random env < ch"
  shows "settle 3 env s =
           encounterRandom (stopProcessing
             ((finalize env (enc_id e) (s\<lparr>timers := []\<rparr>))\<lparr>timers := []\<rparr>))"
proof -
  let ?s0 = "s\<lparr>timers := []\<rparr>"
  have r: "resolve env ch ?s0 = setTimeout 420 (Finalize (enc_id e)) ?s0"
    using assms(2,3) by (simp add: resolve_def)
  have 1: "settle 3 env s = settle 2 env (setTimeout 420 (Finalize (enc_id e)) ?s0)"
    using settle_head [OF assms(1), of 2 env] r by (simp add: fire_def numeral_3_eq_3 numeral_2_eq_2)
  let ?s1 = "finalize env (enc_id e) ?s0"
  have ce: "currentEncounter ?s0 = Some e" using assms(2) by simp
  have 2: "settle 2 env (setTimeout 420 (Finalize (enc_id e)) ?s0) = settle 1 env ?s1"
    using settle_head [of "setTimeout 420 (Finalize (enc_id e)) ?s0" 420 "Finalize (enc_id e)" "[]" 1 env]
    by (simp add: fire_def numeral_2_eq_2 setTimeout_def)
  have t1: "timers ?s1 = [(120, NextEncounter)]"
    using finalize_fields(4) [OF ce, of env "enc_id e"] by simp
  have 3: "settle 1 env ?s1 = settle 0 env (fire env NextEncounter (?s1\<lparr>timers := []\<rparr>))"
    using settle_head [OF t1, of 0 env] by simp
  show ?thesis using 1 2 3 by (simp add: fire_def)
qed

text \<open>A resolution whose draw fails.\<close>

lemma settle_failure:
  assumes "timers s = [(600, Resolve ch)]" and "currentEncounter s = Some e"
    and "\<not> math_random env < ch"
  shows "settle 3 env s =
           encounterRandom (stopProcessing
             ((setToast (if pokeImage env then EscapedBroke (shown_name e) else BallFailed)
                 (s\<lparr>timers := []\<rparr>))\<lparr>currentEncounter := None\<rparr>))"
proof (cases "pokeImage env")
  case True
  let ?s0 = "s\<lparr>timers := []\<rparr>"
  have r: "resolve env ch ?s0 = setTimeout 700 (Escaped (shown_name e)) ?s0"
    using assms(2,3) True by (simp add: resolve_def)
  have 1: "settle 3 env s = settle 2 env (setTimeout 700 (Escaped (shown_name e)) ?s0)"
    using settle_head [OF assms(1), of 2 env] r by (simp add: fire_def numeral_3_eq_3 numeral_2_eq_2)
  have 2: "settle 2 env (setTimeout 700 (Escaped (shown_name e)) ?s0) =
             settle 1 env (fire env (Escaped (shown_name e)) ?s0)"
    using settle_head [of "setTimeout 700 (Escaped (shown_name e)) ?s0" 700 "Escaped (shown_name e)" "[]" 1 env]
    by (simp add: numeral_2_eq_2 setTimeout_def)
  have 3: "settle 1 env (fire env (Escaped (shown_name e)) ?s0) = fire env (Escaped (shown_name e)) ?s0"
    by (rule settle_nil) (simp add: fire_def)
  show ?thesis using 1 2 3 True by (simp add: fire_def)
next
  case False
  let ?s0 = "s\<lparr>timers := []\<rparr>"
  have r: "resolve env ch ?s0 =
      encounterRandom (stopProcessing ((setToast BallFailed ?s0)\<lparr>currentEncounter := None\<rparr>))"
    using assms(2,3) False by (simp add: resolve_def)
  have 1: "settle 3 env s = settle 2 env (resolve env ch ?s0)"
    using settle_head [OF assms(1), of 2 env] by (simp add: fire_def numeral_3_eq_3 numeral_2_eq_2)
  have 2: "settle 2 env (resolve env ch ?s0) = resolve env ch ?s0"
    by (rule settle_nil) (simp add: r)
  show ?thesis using 1 2 r False by simp
qed


subsection \<open>Every event on the collection and on the counts\<close>

lemma tryCatch_pokedex [simp]: "pokedex (tryCatch env s) = pokedex s"
  by (simp add: tryCatch_def Let_def split: option.splits)

lemma runAway_frame [simp]:
  "pokedex (runAway env s) = pokedex s"
  "inventory (runAway env s) = inventory s"
  "captureCounter (runAway env s) = captureCounter s"
  "storage (runAway env s) = storage s"
  by (simp_all add: runAway_def Let_def split: option.splits)

lemma resolve_frame [simp]:
  "pokedex (resolve env ch s) = pokedex s"
  "inventory (resolve env ch s) = inventory s"
  "captureCounter (resolve env ch s) = captureCounter s"
  "storage (resolve env ch s) = storage s"
  by (simp_all add: resolve_def Let_def split: option.splits)

lemma tryCatch_inventory:
  "inventory (tryCatch env s) = inventory s
   \<or> (selectedBall env \<noteq> ''pokeball''
      \<and> inventory (tryCatch env s) =
          (inventory s)(selectedBall env \<mapsto> max 0 (ball_count (inventory s) (selectedBall env) - 1)))"
  by (simp add: tryCatch_def Let_def split: option.splits)

lemma tryCatch_counts:
  "inventory (tryCatch env s) ''pokeball'' = inventory s ''pokeball''"
  "0 \<le> ball_count (inventory s) b \<Longrightarrow> 0 \<le> ball_count (inventory (tryCatch env s)) b"
  using tryCatch_inventory [of env s] by (auto simp: ball_count_def)

lemma finalize_counts:
  "inventory (finalize env i s) ''pokeball'' = inventory s ''pokeball''"
  "ball_count (inventory s) b \<le> ball_count (inventory (finalize env i s)) b"
  by (auto simp: finalize_def Let_def announce_count announce_pokeball split: option.splits)

lemma fire_counts:
  "inventory (fire env t s) ''pokeball'' = inventory s ''pokeball''"
  "ball_count (inventory s) b \<le> ball_count (inventory (fire env t s)) b"
  by (cases t; simp add: fire_def finalize_counts)+

lemma timeout_counts:
  "inventory (timeout env k s) ''pokeball'' = inventory s ''pokeball''"
  "ball_count (inventory s) b \<le> ball_count (inventory (timeout env k s)) b"
  using fire_counts [where env = env and t = "snd (timers s ! k)"
      and s = "s\<lparr>timers := take k (timers s) @ drop (Suc k) (timers s)\<rparr>"]
  by (simp_all add: timeout_def)

lemma step_counts:
  assumes "\<forall>b. b \<noteq> ''pokeball'' \<longrightarrow> 0 \<le> ball_count (inventory s) b"
  shows "inventory (step ev s) ''pokeball'' = inventory s ''pokeball''"
    and "\<forall>b. b \<noteq> ''pokeball'' \<longrightarrow> 0 \<le> ball_count (inventory (step ev s)) b"
proof -
  show "inventory (step ev s) ''pokeball'' = inventory s ''pokeball''"
    by (cases ev) (simp_all add: step_def tryCatch_counts timeout_counts)
  show "\<forall>b. b \<noteq> ''pokeball'' \<longrightarrow> 0 \<le> ball_count (inventory (step ev s)) b"
  proof (intro allI impI)
    fix b :: string
    assume b: "b \<noteq> ''pokeball''"
    then have 0: "0 \<le> ball_count (inventory s) b" using assms by blast
    show "0 \<le> ball_count (inventory (step ev s)) b"
    proof (cases ev)
      case (TryCatch env)
      then show ?thesis using tryCatch_counts(2) [OF 0] by (simp add: step_def)
    next
      case (Timeout env k)
      then show ?thesis
        using timeout_counts(2) [where s = s and b = b and env = env and k = k] 0
        by (simp add: step_def)
    qed (simp_all add: step_def 0)
  qed
qed

lemma run_counts:
  assumes "\<forall>b. b \<noteq> ''pokeball'' \<longrightarrow> 0 \<le> ball_count (inventory s) b"
  shows "inventory (run evs s) ''pokeball'' = inventory s ''pokeball''
     \<and> (\<forall>b. b \<noteq> ''pokeball'' \<longrightarrow> 0 \<le> ball_count (inventory (run evs s)) b)"
  using assms
proof (induction evs arbitrary: s)
  case Nil
  then show ?case by simp
next
  case (Cons ev evs)
  from step_counts [OF Cons.prems, of ev] Cons.IH [of "step ev s"]
  show ?case by simp
qed

lemma finalize_keeps_stamp:
  assumes "truthy (capturedAt_of (pokedex s) i)"
  shows "capturedAt_of (pokedex (finalize env j s)) i = capturedAt_of (pokedex s) i"
proof (cases "j = i")
  case False
  then show ?thesis
    by (auto simp: finalize_def Let_def capturedAt_of_def update_conv' split: option.splits)
next
  case True
  from assms obtain p where p: "map_of (pokedex s) i = Some p" "truthy (capturedAt p)"
    by (auto simp: capturedAt_of_def truthy_def split: option.splits)
  then have e: "entry_or_new (pokedex s) i ce = Some p" for ce
    by (simp add: entry_or_new_def)
  show ?thesis using p True
    by (auto simp: finalize_def e Let_def capturedAt_of_def update_conv' stamp_def split: option.splits)
qed

lemma fire_keeps_stamp:
  assumes "truthy (capturedAt_of (pokedex s) i)"
  shows "capturedAt_of (pokedex (fire env t s)) i = capturedAt_of (pokedex s) i"
  using assms by (cases t) (simp_all add: fire_def finalize_keeps_stamp)

lemma step_keeps_stamp:
  assumes "truthy (capturedAt_of (pokedex s) i)"
  shows "capturedAt_of (pokedex (step ev s)) i = capturedAt_of (pokedex s) i"
proof (cases ev)
  case (Timeout env k)
  let ?s = "s\<lparr>timers := take k (timers s) @ drop (Suc k) (timers s)\<rparr>"
  have "truthy (capturedAt_of (pokedex ?s) i)" using assms by simp
  from fire_keeps_stamp [OF this, of env "snd (timers s ! k)"] Timeout
  show ?thesis by (simp add: step_def timeout_def)
qed (simp_all add: step_def)

lemma run_keeps_stamp:
  assumes "truthy (capturedAt_of (pokedex s) i)"
  shows "capturedAt_of (pokedex (run evs s)) i = capturedAt_of (pokedex s) i"
  using assms
proof (induction evs arbitrary: s)
  case Nil
  then show ?case by simp
next
  case (Cons ev evs)
  have "truthy (capturedAt_of (pokedex (step ev s)) i)"
    using step_keeps_stamp [OF Cons.prems, of ev] Cons.prems by simp
  from Cons.IH [OF this] step_keeps_stamp [OF Cons.prems, of ev]
  show ?case by simp
qed

subsection \<open>The inventory that is written to storage\<close>

lemma saveInventory_persisted:
  "quota env (InvItem (inventory t) (captureCounter t)) \<Longrightarrow>
     st_inv (storage (saveInventory env t)) = Some (inventory t, captureCounter t)"
  by (simp add: saveInventory_def)

lemma grantBonuses_saves:
  "\<exists>t. grantBonuses env s = saveInventory env t \<and> captureCounter t = captureCounter s + 1"
  unfolding grantBonuses_def Let_def by (intro exI conjI, rule refl) simp

lemma grantBonuses_persisted:
  assumes "quota env (InvItem (inventory (grantBonuses env s)) (captureCounter s + 1))"
  shows "st_inv (storage (grantBonuses env s)) = Some (inventory (grantBonuses env s), captureCounter s + 1)"
proof -
  obtain t where t: "grantBonuses env s = saveInventory env t" "captureCounter t = captureCounter s + 1"
    using grantBonuses_saves by blast
  have "quota env (InvItem (inventory t) (captureCounter t))"
    using assms t by simp
  from saveInventory_persisted [OF this] t show ?thesis by simp
qed

lemma finalize_persisted:
  assumes "currentEncounter s = Some e" and "\<not> already_caught (pokedex s) i"
    and "quota env (InvItem (inventory (finalize env i s)) (captureCounter (finalize env i s)))"
  shows "st_inv (storage (finalize env i s)) =
           Some (inventory (finalize env i s), captureCounter (finalize env i s))"
proof -
  from finalize_normal [OF assms(1), where env = env and i = i]
  obtain p where f: "finalize env i s =
      announce env (\<not> already_caught (pokedex s) i) e
        (save env (s\<lparr>pokedex := AList.update i p (pokedex s)\<rparr>))"
    by blast
  let ?s2 = "(setToast (Captured (enc_name e)) (save env (s\<lparr>pokedex := AList.update i p (pokedex s)\<rparr>)))
               \<lparr>currentEncounter := None\<rparr>"
  have g: "finalize env i s = setTimeout 120 NextEncounter (grantBonuses env ?s2)"
    using f assms(2) by (simp add: announce_def Let_def)
  have c: "captureCounter ?s2 = captureCounter s" by simp
  have "quota env (InvItem (inventory (grantBonuses env ?s2)) (captureCounter ?s2 + 1))"
    using assms(3) by (simp add: g)
  from grantBonuses_persisted [OF this] show ?thesis by (simp add: g)
qed

subsection \<open>The sample values\<close>

lemma sample_simps:
  "isProcessing (meeting e) = False"
  "timers (meeting e) = []"
  "currentEncounter (meeting e) = Some e"
  "pokedex (meeting e) = []"
  "captureCounter (meeting e) = 0"
  "inventory (meeting e) = initial_inventory"
  "selectedBall (setting b r) = (if b = [] then ''pokeball'' else b)"
  "math_random (setting b r) = r"
  "pokeImage (setting b r) = True"
  "quota (setting b r) = (\<lambda>_. True)"
  "now (setting b r) = ''2024-05-01T10:00:00.000Z''"
  "ball_count initial_inventory ''greatball'' = 2"
  "ball_count initial_inventory ''ultraball'' = 1"
  "initial_inventory ''pokeball'' = Some (- 1)"
  by (simp_all add: meeting_def initial_state_def setting_def selectedBall_def
      initial_inventory_def ball_count_def)

section \<open>The claims\<close>

text \<open>
  Where a statement speaks of a whole attempt it is about \<^const>\<open>attemptCapture\<close>: the
  click and the timers it arms, with nothing else happening in between. Such a
  statement starts from a state in which no action is in flight and no callback of
  the script is pending (\<open>timers s = []\<close>), and with an encounter on screen, which is
  what \<^verbatim>\<open>tryCatch\<close> asks for before it does anything.
\<close>

text \<open>
  Claim C1, with the condition the script puts on it. When the encounter on screen is
  both shiny and legendary, the chance that \<^verbatim>\<open>tryCatch\<close> computes is 1 whatever the
  ball and whatever the collection holds, so neither the base, the multiplier, the
  penalty nor the cap enters it. The ball is checked and thrown before anything is
  drawn: when the selected ball is \<^verbatim>\<open>pokeball\<close> or is in stock, every value of
  \<^verbatim>\<open>Math.random()\<close>, which lies below 1, passes the test
  \<^verbatim>\<open>Math.random() < chance\<close>, and the attempt ends with the creature marked caught,
  the encounter cleared and no action in flight.
\<close>

theorem shiny_legendary_is_caught:
  assumes "\<not> isProcessing s" and "timers s = []"
    and "currentEncounter s = Some e" and "enc_shiny e" and "enc_is_legendary e"
    and "math_random env < 1"
  shows "chance dex e ball = 1
     \<and> (selectedBall env = ''pokeball'' \<or> 0 < ball_count (inventory s) (selectedBall env) \<longrightarrow>
          timers (tryCatch env s) = [(600, Resolve 1)]
        \<and> already_caught (pokedex (attemptCapture env s)) (enc_id e)
        \<and> currentEncounter (attemptCapture env s) = None
        \<and> \<not> isProcessing (attemptCapture env s))"
proof (intro conjI impI)
  show c: "chance dex e ball = 1" for dex ball
    using assms(4,5) by (simp add: chance_def)
  assume av: "selectedBall env = ''pokeball'' \<or> 0 < ball_count (inventory s) (selectedBall env)"
  let ?s1 = "tryCatch env s"
  have t: "timers ?s1 = [(600, Resolve 1)]" and ce: "currentEncounter ?s1 = Some e"
    using tryCatch_accepted(1,3) [OF assms(1,3) av] assms(2) c by simp_all
  show "timers ?s1 = [(600, Resolve 1)]" by (rule t)
  have run: "attemptCapture env s =
      encounterRandom (stopProcessing
        ((finalize env (enc_id e) (?s1\<lparr>timers := []\<rparr>))\<lparr>timers := []\<rparr>))"
    unfolding attemptCapture_def by (rule settle_success [OF t ce assms(6)])
  have ce0: "currentEncounter (?s1\<lparr>timers := []\<rparr>) = Some e" using ce by simp
  show "already_caught (pokedex (attemptCapture env s)) (enc_id e)"
    using finalize_fields(5) [OF ce0, of env "enc_id e"] by (simp add: run)
  show "currentEncounter (attemptCapture env s) = None"
    using finalize_fields(1) [OF ce0, of env "enc_id e"] by (simp add: run)
  show "\<not> isProcessing (attemptCapture env s)" by (simp add: run)
qed

theorem shiny_legendary_is_caught_witness:
  "chance [] mewtwo ''ultraball'' = 1
   \<and> math_random (setting ''greatball'' (99 / 100)) < 1
   \<and> timers (tryCatch (setting ''greatball'' (99 / 100)) (meeting mewtwo)) = [(600, Resolve 1)]
   \<and> already_caught (pokedex (attemptCapture (setting ''greatball'' (99 / 100)) (meeting mewtwo))) 150
   \<and> currentEncounter (attemptCapture (setting ''greatball'' (99 / 100)) (meeting mewtwo)) = None
   \<and> \<not> isProcessing (attemptCapture (setting ''greatball'' (99 / 100)) (meeting mewtwo))"
  using shiny_legendary_is_caught [of "meeting mewtwo" mewtwo "setting ''greatball'' (99 / 100)" "[]" "''ultraball''"]
  by (simp add: sample_simps mewtwo_def)

text \<open>
  Claim C1 as worded, for every shiny legendary encounter, fails where the guard of
  claim C3 applies: \<^verbatim>\<open>greatball\<close> is selected and none is in stock. The chance is
  1 and the draw would be 0, but the attempt is turned away with the out-of-balls
  notice before the draw; nothing is armed, and the creature is not caught.
\<close>

theorem shiny_legendary_out_of_balls:
  "enc_shiny mewtwo \<and> enc_is_legendary mewtwo
   \<and> \<not> isProcessing ((meeting mewtwo)\<lparr>inventory := initial_inventory(''greatball'' \<mapsto> 0)\<rparr>)
   \<and> currentEncounter ((meeting mewtwo)\<lparr>inventory := initial_inventory(''greatball'' \<mapsto> 0)\<rparr>)
       = Some mewtwo
   \<and> chance [] mewtwo ''greatball'' = 1
   \<and> attemptCapture (setting ''greatball'' 0)
         ((meeting mewtwo)\<lparr>inventory := initial_inventory(''greatball'' \<mapsto> 0)\<rparr>)
       = (meeting mewtwo)\<lparr>inventory := initial_inventory(''greatball'' \<mapsto> 0), toast := Some OutOfBalls\<rparr>
   \<and> \<not> already_caught
         (pokedex (attemptCapture (setting ''greatball'' 0)
            ((meeting mewtwo)\<lparr>inventory := initial_inventory(''greatball'' \<mapsto> 0)\<rparr>))) 150"
  by (simp add: attemptCapture_def tryCatch_def Let_def sample_simps ball_count_def
      chance_def mewtwo_def meeting_def initial_state_def setToast_def startProcessing_def
      stopProcessing_def numeral_3_eq_3 already_caught_def)

text \<open>
  Claim C2. When the encounter on screen is not both shiny and legendary, the chance
  is the base 0.35 times the multiplier of the ball (1 for \<^verbatim>\<open>pokeball\<close>, 1.5 for
  \<^verbatim>\<open>greatball\<close>, 2.2 for \<^verbatim>\<open>ultraball\<close>, 1 for any other name), plus \<open>-0.1\<close>
  when the entry of the creature is marked caught, and at most 0.98; and this is the
  value the 600 ms callback of an attempt that goes ahead compares the draw with.
\<close>

theorem chance_formula:
  assumes "currentEncounter s = Some e" and "\<not> (enc_shiny e \<and> enc_is_legendary e)"
  shows "chance (pokedex s) e ball =
           min (49 / 50)
             (7 / 20 * (if ball = ''pokeball'' then 1 else if ball = ''greatball'' then 3 / 2
                        else if ball = ''ultraball'' then 11 / 5 else 1)
              + (if already_caught (pokedex s) (enc_id e) then - (1 / 10) else 0))
     \<and> (\<not> isProcessing s
          \<and> (selectedBall env = ''pokeball'' \<or> 0 < ball_count (inventory s) (selectedBall env)) \<longrightarrow>
        timers (tryCatch env s) =
          timers s @ [(600, Resolve (chance (pokedex s) e (selectedBall env)))])"
  using assms tryCatch_accepted(1) [of s e env]
  by (simp add: chance_def base_def ballBonus_def)

theorem chance_formula_witness:
  "chance (pokedex (meeting rattata)) rattata ''pokeball'' = 7 / 20
   \<and> chance (pokedex (meeting rattata)) rattata ''greatball'' = 21 / 40
   \<and> chance (pokedex (meeting rattata)) rattata ''ultraball'' = 77 / 100
   \<and> chance (pokedex (collected\<lparr>currentEncounter := Some rattata\<rparr>)) rattata ''ultraball'' = 67 / 100
   \<and> timers (tryCatch (setting ''greatball'' 0) (meeting rattata)) = [(600, Resolve (21 / 40))]"
  using chance_formula [of "meeting rattata" rattata "''pokeball''" "setting ''greatball'' 0"]
    chance_formula [of "meeting rattata" rattata "''greatball''" "setting ''greatball'' 0"]
    chance_formula [of "meeting rattata" rattata "''ultraball''" "setting ''greatball'' 0"]
    chance_formula [of "collected\<lparr>currentEncounter := Some rattata\<rparr>" rattata "''ultraball''"
      "setting ''greatball'' 0"]
  by (simp add: sample_simps rattata_def already_caught_def collected_def rattata_entry_def)

text \<open>
  Claim C3. When the selected ball is not \<^verbatim>\<open>pokeball\<close> and its count is zero or
  less, \<^verbatim>\<open>tryCatch\<close> changes neither the inventory, nor the collection, nor the
  capture counter, nor what is in storage, arms no timer and keeps the encounter; and
  when it is called with no action in flight and an encounter on screen, it shows the
  out-of-balls notice and leaves no action in flight.
\<close>

theorem out_of_balls_aborts:
  assumes "selectedBall env \<noteq> ''pokeball''"
    and "ball_count (inventory s) (selectedBall env) \<le> 0"
  shows "inventory (tryCatch env s) = inventory s
     \<and> pokedex (tryCatch env s) = pokedex s
     \<and> captureCounter (tryCatch env s) = captureCounter s
     \<and> storage (tryCatch env s) = storage s
     \<and> timers (tryCatch env s) = timers s
     \<and> currentEncounter (tryCatch env s) = currentEncounter s
     \<and> (\<not> isProcessing s \<and> currentEncounter s \<noteq> None \<longrightarrow>
          toast (tryCatch env s) = Some OutOfBalls \<and> \<not> isProcessing (tryCatch env s))"
  using assms by (auto simp: tryCatch_def Let_def split: option.splits)

theorem out_of_balls_aborts_witness:
  "selectedBall (setting ''greatball'' 0) \<noteq> ''pokeball''
   \<and> ball_count (inventory ((meeting rattata)\<lparr>inventory := initial_inventory(''greatball'' \<mapsto> 0)\<rparr>))
         (selectedBall (setting ''greatball'' 0)) \<le> 0
   \<and> inventory (tryCatch (setting ''greatball'' 0)
         ((meeting rattata)\<lparr>inventory := initial_inventory(''greatball'' \<mapsto> 0)\<rparr>))
       = initial_inventory(''greatball'' \<mapsto> 0)
   \<and> pokedex (tryCatch (setting ''greatball'' 0)
         ((meeting rattata)\<lparr>inventory := initial_inventory(''greatball'' \<mapsto> 0)\<rparr>)) = []
   \<and> timers (tryCatch (setting ''greatball'' 0)
         ((meeting rattata)\<lparr>inventory := initial_inventory(''greatball'' \<mapsto> 0)\<rparr>)) = []
   \<and> toast (tryCatch (setting ''greatball'' 0)
         ((meeting rattata)\<lparr>inventory := initial_inventory(''greatball'' \<mapsto> 0)\<rparr>)) = Some OutOfBalls
   \<and> \<not> isProcessing (tryCatch (setting ''greatball'' 0)
         ((meeting rattata)\<lparr>inventory := initial_inventory(''greatball'' \<mapsto> 0)\<rparr>))"
  using out_of_balls_aborts [of "setting ''greatball'' 0"
      "(meeting rattata)\<lparr>inventory := initial_inventory(''greatball'' \<mapsto> 0)\<rparr>"]
  by (simp add: sample_simps ball_count_def)

text \<open>
  Claim C4. Along every sequence of events (clicks on either button with any ball
  selected, timers of the capture chain with their bonus grants, the watchdog,
  encounters arriving), the count of every ball other than \<^verbatim>\<open>pokeball\<close> stays at or
  above zero once it is, as it is in the initial inventory, and the entry of
  \<^verbatim>\<open>pokeball\<close>, the sentinel \<open>-1\<close>, is never written.
\<close>

theorem counts_never_negative:
  assumes "\<forall>b. b \<noteq> ''pokeball'' \<longrightarrow> 0 \<le> ball_count (inventory s) b"
  shows "(\<forall>b. b \<noteq> ''pokeball'' \<longrightarrow> 0 \<le> ball_count (inventory (run evs s)) b)
     \<and> inventory (run evs s) ''pokeball'' = inventory s ''pokeball''"
  using run_counts [OF assms, of evs] by simp

theorem counts_never_negative_witness:
  "0 \<le> ball_count (inventory (run
        [EncounterLoaded rattata, TryCatch (setting ''ultraball'' 0), TryCatch (setting ''ultraball'' 0),
         Timeout (setting ''ultraball'' 0) 0, Timeout (setting ''ultraball'' 0) 0,
         Timeout (setting ''ultraball'' 0) 0, EncounterLoaded mewtwo, TryCatch (setting ''ultraball'' 0)]
        initial_state)) ''ultraball''
   \<and> inventory (run
        [EncounterLoaded rattata, TryCatch (setting ''ultraball'' 0), TryCatch (setting ''ultraball'' 0),
         Timeout (setting ''ultraball'' 0) 0, Timeout (setting ''ultraball'' 0) 0,
         Timeout (setting ''ultraball'' 0) 0, EncounterLoaded mewtwo, TryCatch (setting ''ultraball'' 0)]
        initial_state) ''pokeball'' = Some (- 1)"
proof -
  have "\<forall>b. b \<noteq> ''pokeball'' \<longrightarrow> 0 \<le> ball_count (inventory initial_state) b"
    by (simp add: initial_state_def initial_inventory_def ball_count_def)
  from counts_never_negative [OF this,
      of "[EncounterLoaded rattata, TryCatch (setting ''ultraball'' 0), TryCatch (setting ''ultraball'' 0),
         Timeout (setting ''ultraball'' 0) 0, Timeout (setting ''ultraball'' 0) 0,
         Timeout (setting ''ultraball'' 0) 0, EncounterLoaded mewtwo, TryCatch (setting ''ultraball'' 0)]"]
  show ?thesis by (simp add: initial_state_def initial_inventory_def)
qed

text \<open>
  Claim C5. The callback that writes a capture sets \<^verbatim>\<open>capturedAt\<close> of the creature
  to the current time only when it held nothing before (\<^verbatim>\<open>null\<close>, missing, or the
  empty string, which \<^verbatim>\<open>!capturedAt\<close> treats alike) and keeps it otherwise; and from
  then on no sequence of events, further captures of the same creature among them,
  changes it. The clock's \<^verbatim>\<open>toISOString\<close> never prints the empty string.
\<close>

theorem capturedAt_set_once:
  assumes "currentEncounter s = Some e" and "now env \<noteq> []"
  shows "capturedAt_of (pokedex (finalize env i s)) i =
           (if truthy (capturedAt_of (pokedex s) i) then capturedAt_of (pokedex s) i
            else Some (now env))
     \<and> (\<forall>evs. capturedAt_of (pokedex (run evs (finalize env i s))) i =
                capturedAt_of (pokedex (finalize env i s)) i)"
proof -
  have 1: "capturedAt_of (pokedex (finalize env i s)) i =
           (if truthy (capturedAt_of (pokedex s) i) then capturedAt_of (pokedex s) i
            else Some (now env))"
    by (rule finalize_fields(7) [OF assms(1)])
  then have "truthy (capturedAt_of (pokedex (finalize env i s)) i)"
    using assms(2) by (simp add: truthy_def)
  from run_keeps_stamp [OF this] 1 show ?thesis by simp
qed

theorem capturedAt_set_once_witness:
  "now (setting ''pokeball'' 0) \<noteq> []
   \<and> capturedAt_of (pokedex (finalize (setting ''pokeball'' 0) 19 (meeting rattata))) 19
       = Some ''2024-05-01T10:00:00.000Z''
   \<and> capturedAt_of (pokedex (run
         [EncounterLoaded rattata,
          TryCatch ((setting ''pokeball'' 0)\<lparr>now := ''2025-01-01T00:00:00.000Z''\<rparr>),
          Timeout ((setting ''pokeball'' 0)\<lparr>now := ''2025-01-01T00:00:00.000Z''\<rparr>) 0,
          Timeout ((setting ''pokeball'' 0)\<lparr>now := ''2025-01-01T00:00:00.000Z''\<rparr>) 0]
         (finalize (setting ''pokeball'' 0) 19 (meeting rattata)))) 19
       = Some ''2024-05-01T10:00:00.000Z''"
proof -
  have n: "now (setting ''pokeball'' 0) \<noteq> []"
    by (simp add: sample_simps)
  have ce: "currentEncounter (meeting rattata) = Some rattata"
    by (simp add: sample_simps)
  have un: "capturedAt_of (pokedex (meeting rattata)) 19 = None"
    by (simp add: sample_simps capturedAt_of_def)
  note once = capturedAt_set_once [OF ce n, of 19]
  have a: "capturedAt_of (pokedex (finalize (setting ''pokeball'' 0) 19 (meeting rattata))) 19
       = Some ''2024-05-01T10:00:00.000Z''"
    using once by (simp add: un truthy_def setting_def)
  have b: "capturedAt_of (pokedex (run evs (finalize (setting ''pokeball'' 0) 19 (meeting rattata)))) 19
       = capturedAt_of (pokedex (finalize (setting ''pokeball'' 0) 19 (meeting rattata))) 19" for evs
    using once by blast
  show ?thesis
    by (intro conjI) (rule n, rule a, simp only: b a)
qed

text \<open>
  Claim C6. The callback that writes a capture adds one to \<^verbatim>\<open>captureCounter\<close>
  exactly when the creature was not marked caught before; the count of
  \<^verbatim>\<open>greatball\<close> grows by one exactly when, in addition, the new counter is a multiple
  of 10, and the count of \<^verbatim>\<open>ultraball\<close> by one exactly when it is a multiple of
  100, and neither changes otherwise; and on a first capture the inventory and the
  counter as they stand after the grants are what \<^verbatim>\<open>localStorage\<close> holds, when it
  accepts the write.
\<close>

theorem counter_and_bonus_on_first_capture:
  assumes "currentEncounter s = Some e"
  shows "captureCounter (finalize env i s) =
           (if already_caught (pokedex s) i then captureCounter s else captureCounter s + 1)
     \<and> ball_count (inventory (finalize env i s)) ''greatball'' =
           ball_count (inventory s) ''greatball''
           + (if \<not> already_caught (pokedex s) i \<and> (captureCounter s + 1) mod 10 = 0 then 1 else 0)
     \<and> ball_count (inventory (finalize env i s)) ''ultraball'' =
           ball_count (inventory s) ''ultraball''
           + (if \<not> already_caught (pokedex s) i \<and> (captureCounter s + 1) mod 100 = 0 then 1 else 0)
     \<and> (\<not> already_caught (pokedex s) i
          \<and> quota env (InvItem (inventory (finalize env i s)) (captureCounter (finalize env i s))) \<longrightarrow>
        st_inv (storage (finalize env i s)) =
          Some (inventory (finalize env i s), captureCounter (finalize env i s)))"
  using finalize_fields(6) [OF assms, of env i]
    finalize_fields(10) [OF assms, of env i "''greatball''"]
    finalize_fields(10) [OF assms, of env i "''ultraball''"]
    finalize_persisted [OF assms, of i env]
  by simp

theorem counter_and_bonus_on_first_capture_witness:
  "captureCounter (finalize (setting ''pokeball'' 0) 19 ((meeting rattata)\<lparr>captureCounter := 9\<rparr>)) = 10
   \<and> ball_count (inventory (finalize (setting ''pokeball'' 0) 19 ((meeting rattata)\<lparr>captureCounter := 9\<rparr>)))
         ''greatball'' = 3
   \<and> ball_count (inventory (finalize (setting ''pokeball'' 0) 19 ((meeting rattata)\<lparr>captureCounter := 9\<rparr>)))
         ''ultraball'' = 1
   \<and> st_inv (storage (finalize (setting ''pokeball'' 0) 19 ((meeting rattata)\<lparr>captureCounter := 9\<rparr>))) =
         Some (inventory (finalize (setting ''pokeball'' 0) 19 ((meeting rattata)\<lparr>captureCounter := 9\<rparr>)), 10)"
  using counter_and_bonus_on_first_capture
    [of "(meeting rattata)\<lparr>captureCounter := 9\<rparr>" rattata "setting ''pokeball'' 0" 19]
  by (simp add: sample_simps already_caught_def)

text \<open>
  Claim C7. While an action is in flight (\<^verbatim>\<open>isProcessing\<close>), a click on the capture
  button and a click on the run button both leave the whole state as it is: the
  inventory, the collection, the encounter and the pending timers.
\<close>

theorem resolving_ignores_requests:
  "isProcessing s \<Longrightarrow> tryCatch env s = s \<and> runAway env s = s"
  by (simp add: tryCatch_def runAway_def)

theorem resolving_ignores_requests_witness:
  "isProcessing (startProcessing (meeting rattata))
   \<and> tryCatch (setting ''greatball'' 0) (startProcessing (meeting rattata))
       = startProcessing (meeting rattata)
   \<and> runAway (setting ''greatball'' 0) (startProcessing (meeting rattata))
       = startProcessing (meeting rattata)"
  using resolving_ignores_requests [of "startProcessing (meeting rattata)" "setting ''greatball'' 0"]
  by simp

text \<open>
  Claim C8. When the draw of an attempt is not below the chance, the collection and
  the capture counter are those from before the attempt, the inventory and the
  storage are those left by the throw of the ball (the inventory of before with the
  thrown ball taken off, when it is not \<^verbatim>\<open>pokeball\<close>), the encounter is cleared, no
  action is in flight, no timer is pending and a fetch of the next encounter is under
  way.
\<close>

theorem failed_draw_changes_no_store:
  assumes "\<not> isProcessing s" and "timers s = []" and "currentEncounter s = Some e"
    and "selectedBall env = ''pokeball'' \<or> 0 < ball_count (inventory s) (selectedBall env)"
    and "\<not> math_random env < chance (pokedex s) e (selectedBall env)"
  shows "pokedex (attemptCapture env s) = pokedex s
     \<and> inventory (attemptCapture env s) = inventory (tryCatch env s)
     \<and> captureCounter (attemptCapture env s) = captureCounter s
     \<and> storage (attemptCapture env s) = storage (tryCatch env s)
     \<and> currentEncounter (attemptCapture env s) = None
     \<and> \<not> isProcessing (attemptCapture env s)
     \<and> isFetchingEncounter (attemptCapture env s)
     \<and> timers (attemptCapture env s) = []
     \<and> inventory (tryCatch env s) =
           (if selectedBall env = ''pokeball'' then inventory s
            else (inventory s)
                   (selectedBall env \<mapsto> ball_count (inventory s) (selectedBall env) - 1))"
proof -
  let ?s1 = "tryCatch env s"
  have t: "timers ?s1 = [(600, Resolve (chance (pokedex s) e (selectedBall env)))]"
    and ce: "currentEncounter ?s1 = Some e"
    using tryCatch_accepted(1,3) [OF assms(1,3,4)] assms(2) by simp_all
  have "attemptCapture env s =
      encounterRandom (stopProcessing
        ((setToast (if pokeImage env then EscapedBroke (shown_name e) else BallFailed)
            (?s1\<lparr>timers := []\<rparr>))\<lparr>currentEncounter := None\<rparr>))"
    unfolding attemptCapture_def by (rule settle_failure [OF t ce assms(5)])
  moreover have "inventory (tryCatch env s) =
           (if selectedBall env = ''pokeball'' then inventory s
            else (inventory s)
                   (selectedBall env \<mapsto> ball_count (inventory s) (selectedBall env) - 1))"
    using assms(1,3,4)
    by (cases "selectedBall env = ''pokeball''") (simp_all add: tryCatch_pokeball tryCatch_finite)
  ultimately show ?thesis
    using tryCatch_accepted(5) [OF assms(1,3,4)] by simp
qed

theorem failed_draw_changes_no_store_witness:
  "\<not> math_random (setting ''greatball'' (99 / 100))
        < chance (pokedex (meeting rattata)) rattata (selectedBall (setting ''greatball'' (99 / 100)))
   \<and> pokedex (attemptCapture (setting ''greatball'' (99 / 100)) (meeting rattata)) = []
   \<and> ball_count (inventory (attemptCapture (setting ''greatball'' (99 / 100)) (meeting rattata)))
         ''greatball'' = 1
   \<and> captureCounter (attemptCapture (setting ''greatball'' (99 / 100)) (meeting rattata)) = 0
   \<and> storage (attemptCapture (setting ''greatball'' (99 / 100)) (meeting rattata))
       = storage (tryCatch (setting ''greatball'' (99 / 100)) (meeting rattata))
   \<and> currentEncounter (attemptCapture (setting ''greatball'' (99 / 100)) (meeting rattata)) = None
   \<and> \<not> isProcessing (attemptCapture (setting ''greatball'' (99 / 100)) (meeting rattata))
   \<and> isFetchingEncounter (attemptCapture (setting ''greatball'' (99 / 100)) (meeting rattata))
   \<and> timers (attemptCapture (setting ''greatball'' (99 / 100)) (meeting rattata)) = []"
proof -
  let ?env = "setting ''greatball'' (99 / 100)"
  have idle: "\<not> isProcessing (meeting rattata)" and quiet: "timers (meeting rattata) = []"
    and met: "currentEncounter (meeting rattata) = Some rattata"
    by (simp_all add: sample_simps)
  have stock: "selectedBall ?env = ''pokeball''
      \<or> 0 < ball_count (inventory (meeting rattata)) (selectedBall ?env)"
    by (simp add: sample_simps)
  have miss: "\<not> math_random ?env < chance (pokedex (meeting rattata)) rattata (selectedBall ?env)"
    by (simp add: sample_simps chance_def base_def ballBonus_def rattata_def already_caught_def)
  note failed = failed_draw_changes_no_store [OF idle quiet met stock miss]
  have left: "ball_count (inventory (attemptCapture ?env (meeting rattata))) ''greatball'' = 1"
    using failed by (simp add: sample_simps ball_count_def initial_inventory_def)
  show ?thesis
    using failed miss left by (simp add: sample_simps)
qed

text \<open>
  Claim C9, as the script has it. The handler of the import button refuses, with its
  notice, a text on which \<^verbatim>\<open>JSON.parse\<close> throws, and leaves the collection, the
  storage and every other variable as they were. It checks nothing else.
\<close>

theorem import_refuses_unparsable_text:
  "importPokedex_onload allCount env SyntaxError s = Vars (s\<lparr>toast := Some InvalidFile\<rparr>)"
  by (simp add: importPokedex_onload_def setToast_def)

text \<open>
  Claim C9 as worded, for every invalid input, fails on texts that parse: such a text
  is taken whatever it holds. The number 42 becomes the collection,
  in memory and in storage, with the notice of a successful import. The text
  \<^verbatim>\<open>null\<close> is refused with the notice of an invalid file, but only after
  \<^verbatim>\<open>pokedex = data\<close> and \<^verbatim>\<open>save()\<close> have run: the collection that held a caught
  creature is \<^verbatim>\<open>null\<close> afterwards, and the saved collection and the saved
  inventory are gone from storage. The catalog has 151 creatures unless the script
  learns otherwise.
\<close>

theorem import_replaces_collection:
  "pokedex collected = [(19, rattata_entry)]
   \<and> st_dex (storage collected) = Some (StoredDex [(19, rattata_entry)])
   \<and> importPokedex_onload 151 (setting ''pokeball'' 0) (ParsedPrim (PNumber 42)) collected
       = PrimPokedex (PNumber 42)
           (collected\<lparr>toast := Some Imported,
                      storage := (storage collected)\<lparr>st_dex := Some (StoredPrim (PNumber 42))\<rparr>\<rparr>)
   \<and> importPokedex_onload 151 (setting ''pokeball'' 0) ParsedNull collected
       = NullPokedex
           (collected\<lparr>toast := Some InvalidFile,
                      storage := (storage collected)\<lparr>st_dex := None, st_inv := None\<rparr>\<rparr>)"
  by (simp add: importPokedex_onload_def save_null_def save_prim_def renderPokedex_null_throws_def
      setToast_def collected_def setting_def)

text \<open>
  Claim C10. When a first capture makes \<^verbatim>\<open>captureCounter\<close> a multiple of 100, the
  same callback adds one to the count of \<^verbatim>\<open>greatball\<close> and one to the count of
  \<^verbatim>\<open>ultraball\<close>: the two tests are made one after the other and a multiple of 100
  is a multiple of 10.
\<close>

theorem hundredth_capture_grants_both:
  assumes "currentEncounter s = Some e" and "\<not> already_caught (pokedex s) i"
    and "(captureCounter s + 1) mod 100 = 0"
  shows "captureCounter (finalize env i s) = captureCounter s + 1
     \<and> ball_count (inventory (finalize env i s)) ''greatball'' = ball_count (inventory s) ''greatball'' + 1
     \<and> ball_count (inventory (finalize env i s)) ''ultraball'' = ball_count (inventory s) ''ultraball'' + 1"
proof -
  have ten: "(captureCounter s + 1) mod 10 = 0" using assms(3) by presburger
  show ?thesis
    using finalize_fields(6) [OF assms(1), of env i]
      finalize_fields(10) [OF assms(1), of env i "''greatball''"]
      finalize_fields(10) [OF assms(1), of env i "''ultraball''"]
      assms(2,3) ten
    by simp
qed

theorem hundredth_capture_grants_both_witness:
  "captureCounter (finalize (setting ''pokeball'' 0) 19 ((meeting rattata)\<lparr>captureCounter := 99\<rparr>)) = 100
   \<and> ball_count (inventory (finalize (setting ''pokeball'' 0) 19 ((meeting rattata)\<lparr>captureCounter := 99\<rparr>)))
         ''greatball'' = 3
   \<and> ball_count (inventory (finalize (setting ''pokeball'' 0) 19 ((meeting rattata)\<lparr>captureCounter := 99\<rparr>)))
         ''ultraball'' = 2"
  using hundredth_capture_grants_both
    [of "(meeting rattata)\<lparr>captureCounter := 99\<rparr>" rattata 19 "setting ''pokeball'' 0"]
  by (simp add: sample_simps already_caught_def)

end
